theory Spec2Isabelle
  imports Main
begin

section \<open>Trino to GCS transfer: type mapping and the cursor adapter\<close>

text \<open>
  A shallow embedding of \<^verbatim>\<open>airflow/providers/google/cloud/transfers/trino_to_gcs.py\<close>:
  the method \<^verbatim>\<open>TrinoToGCSOperator.field_to_bigquery\<close> with its class attribute
  \<^verbatim>\<open>type_map\<close>, and the class \<^verbatim>\<open>_TrinoToGCSTrinoCursorAdapter\<close>.
\<close>

subsection \<open>Errors\<close>

text \<open>
  The exceptions the modelled code can raise by itself. \<^verbatim>\<open>StopIteration\<close> is raised by
  \<^verbatim>\<open>__next__\<close>; \<^verbatim>\<open>AttributeError\<close> is what \<^verbatim>\<open>field[1].upper()\<close> raises when the
  type code is \<^verbatim>\<open>None\<close>.
\<close>

datatype error = StopIteration | AttributeError

subsection \<open>Column descriptors and the type mapper\<close>

text \<open>
  A column descriptor is the 7-item sequence of the docstring of \<^verbatim>\<open>description\<close>.
  Items that Python may hold as \<^verbatim>\<open>None\<close> are options.
\<close>

record column_descriptor =
  name :: "string option"
  type_code :: "string option"
  display_size :: "int option"
  internal_size :: "int option"
  precision :: "int option"
  scale :: "int option"
  null_ok :: "bool option"

text \<open>The dictionary \<^verbatim>\<open>{"name": ..., "type": ...}\<close> returned by \<^verbatim>\<open>field_to_bigquery\<close>.\<close>

record bigquery_field =
  bq_name :: "string option"
  bq_type :: string

text \<open>
  Strings hold the UTF-8 bytes of a Python \<^verbatim>\<open>str\<close>. \<^verbatim>\<open>str.upper()\<close> is the Python
  runtime's Unicode case mapping, not code of this repository: it maps some characters
  outside ASCII to ASCII letters (the dotless i to \<open>I\<close>) and may change the length.
  \<open>field_to_bigquery\<close> therefore takes it as the parameter \<open>str_upper\<close>. What the runtime
  does on an ASCII string is known and is written out: \<^verbatim>\<open>str.isascii()\<close> holds when
  every byte is below 128, and on such a string \<^verbatim>\<open>str.upper()\<close> maps the letters a to z
  to A to Z and leaves every other character as it is.
\<close>

definition isascii :: "string \<Rightarrow> bool" where
  "isascii s = list_all (\<lambda>c. \<not> digit7 c) s"

definition upper_char :: "char \<Rightarrow> char" where
  "upper_char c =
     (case map_of (zip ''abcdefghijklmnopqrstuvwxyz'' ''ABCDEFGHIJKLMNOPQRSTUVWXYZ'') c of
        Some u \<Rightarrow> u
      | None \<Rightarrow> c)"

definition ascii_upper :: "string \<Rightarrow> string" where
  "ascii_upper s = map upper_char s"

text \<open>
  \<^verbatim>\<open>s.partition(sep)\<close> for a separator of one character: the part before the first
  occurrence, the separator itself, the part after it; \<^verbatim>\<open>(s, "", "")\<close> when the separator
  does not occur.
\<close>

fun partition_char :: "char \<Rightarrow> string \<Rightarrow> string \<times> string \<times> string" where
  "partition_char sep [] = ([], [], [])"
| "partition_char sep (c # cs) =
     (if c = sep then ([], [sep], cs)
      else (case partition_char sep cs of (before, s, after) \<Rightarrow> (c # before, s, after)))"

text \<open>The class attribute \<^verbatim>\<open>type_map\<close>, in the order of the source.\<close>

definition type_map :: "(string \<times> string) list" where
  "type_map =
     [(''BOOLEAN'', ''BOOL''),
      (''TINYINT'', ''INT64''),
      (''SMALLINT'', ''INT64''),
      (''INTEGER'', ''INT64''),
      (''BIGINT'', ''INT64''),
      (''REAL'', ''FLOAT64''),
      (''DOUBLE'', ''FLOAT64''),
      (''DECIMAL'', ''NUMERIC''),
      (''VARCHAR'', ''STRING''),
      (''CHAR'', ''STRING''),
      (''VARBINARY'', ''BYTES''),
      (''JSON'', ''STRING''),
      (''DATE'', ''DATE''),
      (''TIME'', ''TIME''),
      (''TIME WITH TIME ZONE'', ''STRING''),
      (''TIMESTAMP'', ''TIMESTAMP''),
      (''TIMESTAMP WITH TIME ZONE'', ''STRING''),
      (''IPADDRESS'', ''STRING''),
      (''UUID'', ''STRING'')]"

text \<open>\<^verbatim>\<open>d.get(key, default)\<close> on a dictionary given by its items.\<close>

definition dict_get :: "('k \<times> 'v) list \<Rightarrow> 'k \<Rightarrow> 'v \<Rightarrow> 'v" where
  "dict_get d k dflt = (case map_of d k of Some v \<Rightarrow> v | None \<Rightarrow> dflt)"

text \<open>
  \<^verbatim>\<open>field_to_bigquery\<close>: \<^verbatim>\<open>field[1].upper()\<close>, then \<^verbatim>\<open>partition("(")\<close>, then
  \<^verbatim>\<open>type_map.get(clear_field_type, "STRING")\<close>. A type code that is \<^verbatim>\<open>None\<close> has no
  method \<^verbatim>\<open>upper\<close>. The first argument is the runtime's \<^verbatim>\<open>str.upper\<close>.
\<close>

definition field_to_bigquery ::
  "(string \<Rightarrow> string) \<Rightarrow> column_descriptor \<Rightarrow> error + bigquery_field" where
  "field_to_bigquery str_upper field =
     (case type_code field of
        None \<Rightarrow> Inl AttributeError
      | Some t \<Rightarrow>
          (let clear_field_type = str_upper t;
               clear_field_type = fst (partition_char CHR ''('' clear_field_type);
               new_field_type = dict_get type_map clear_field_type ''STRING''
           in Inr \<lparr>bq_name = name field, bq_type = new_field_type\<rparr>))"

subsection \<open>The type mapper as the specification words it\<close>

text \<open>
  The static table of the specification, read row by row, and the normalisation
  "uppercase the engine type code, then truncate at the first parenthesis", with the
  uppercasing as the same parameter.
\<close>

definition spec_table :: "(string \<times> string) list" where
  "spec_table =
     [(''BOOLEAN'', ''BOOL''), (''DATE'', ''DATE''),
      (''TINYINT'', ''INT64''), (''TIME'', ''TIME''),
      (''SMALLINT'', ''INT64''), (''TIME WITH TIME ZONE'', ''STRING''),
      (''INTEGER'', ''INT64''), (''TIMESTAMP'', ''TIMESTAMP''),
      (''BIGINT'', ''INT64''), (''TIMESTAMP WITH TIME ZONE'', ''STRING''),
      (''REAL'', ''FLOAT64''), (''IPADDRESS'', ''STRING''),
      (''DOUBLE'', ''FLOAT64''), (''UUID'', ''STRING''),
      (''DECIMAL'', ''NUMERIC''), (''VARCHAR'', ''STRING''),
      (''CHAR'', ''STRING''), (''VARBINARY'', ''BYTES''),
      (''JSON'', ''STRING'')]"

definition spec_normalize :: "(string \<Rightarrow> string) \<Rightarrow> string \<Rightarrow> string" where
  "spec_normalize str_upper t = takeWhile (\<lambda>c. c \<noteq> CHR ''('') (str_upper t)"

definition spec_mapType :: "(string \<Rightarrow> string) \<Rightarrow> string \<Rightarrow> string" where
  "spec_mapType str_upper t =
     (case map_of spec_table (spec_normalize str_upper t) of
        Some target \<Rightarrow> target
      | None \<Rightarrow> ''STRING'')"

subsection \<open>The raw cursor\<close>

text \<open>
  Modelled from the spec: the raw cursor is the Trino client's cursor, a collaborator
  outside this repository. The specification describes it as a forward-only, fetch-only
  handle with a single-row fetch returning a row or the end-of-stream marker, a read-only
  row count, a preferred batch size, and a column-metadata sequence that is populated
  only after the first fetch attempt. The model keeps the rows the engine has still to
  emit, in emission order, and counts the fetches (\<open>fetch_count\<close> is a ghost field: the
  adapter never reads it). Failures of the engine or of the connection are not modelled.
\<close>

record 'r raw_cursor =
  pending :: "'r list"
  columns :: "column_descriptor list"
  fetch_attempted :: bool
  fetch_count :: nat
  raw_rowcount :: int
  arraysize :: int

text \<open>\<^verbatim>\<open>cursor.fetchone()\<close>: the next row, or \<^verbatim>\<open>None\<close> once the result set is exhausted.\<close>

definition raw_fetchone :: "'r raw_cursor \<Rightarrow> 'r option \<times> 'r raw_cursor" where
  "raw_fetchone c =
     (case pending c of
        [] \<Rightarrow> (None, c\<lparr>fetch_attempted := True, fetch_count := Suc (fetch_count c)\<rparr>)
      | r # rs \<Rightarrow>
          (Some r, c\<lparr>pending := rs, fetch_attempted := True, fetch_count := Suc (fetch_count c)\<rparr>))"

text \<open>\<^verbatim>\<open>cursor.description\<close>: \<^verbatim>\<open>None\<close> until a fetch has been attempted.\<close>

definition raw_description :: "'r raw_cursor \<Rightarrow> column_descriptor list option" where
  "raw_description c = (if fetch_attempted c then Some (columns c) else None)"

subsection \<open>The cursor adapter\<close>

text \<open>
  The attributes of \<^verbatim>\<open>_TrinoToGCSTrinoCursorAdapter\<close>. The list \<^verbatim>\<open>rows\<close> holds whatever
  \<^verbatim>\<open>cursor.fetchone()\<close> returned, so it may hold \<^verbatim>\<open>None\<close>.
\<close>

record 'r adapter =
  cursor :: "'r raw_cursor"
  rows :: "'r option list"
  initialized :: bool

text \<open>\<^verbatim>\<open>__init__\<close>\<close>

definition adapter_init :: "'r raw_cursor \<Rightarrow> 'r adapter" where
  "adapter_init c = \<lparr>cursor = c, rows = [], initialized = False\<rparr>"

text \<open>\<^verbatim>\<open>peekone\<close>: sets the flag, fetches from the raw cursor, \<^verbatim>\<open>self.rows.insert(0, element)\<close>.\<close>

definition peekone :: "'r adapter \<Rightarrow> 'r option \<times> 'r adapter" where
  "peekone a =
     (let a1 = a\<lparr>initialized := True\<rparr>
      in case raw_fetchone (cursor a1) of
           (element, c') \<Rightarrow> (element, a1\<lparr>cursor := c', rows := element # rows a1\<rparr>))"

text \<open>
  \<^verbatim>\<open>fetchone\<close>: \<^verbatim>\<open>if self.rows: return self.rows.pop(0)\<close>, else the raw cursor's
  \<^verbatim>\<open>fetchone\<close>. A list is true when it is not empty, whatever it holds.
\<close>

definition fetchone :: "'r adapter \<Rightarrow> 'r option \<times> 'r adapter" where
  "fetchone a =
     (case rows a of
        x # xs \<Rightarrow> (x, a\<lparr>rows := xs\<rparr>)
      | [] \<Rightarrow> (case raw_fetchone (cursor a) of (x, c') \<Rightarrow> (x, a\<lparr>cursor := c'\<rparr>)))"

text \<open>
  The loop of \<^verbatim>\<open>fetchmany\<close>, \<^verbatim>\<open>for _ in range(size)\<close>, with the iterations left as
  the first argument and \<^verbatim>\<open>result\<close> as the accumulator; \<^verbatim>\<open>break\<close> on \<^verbatim>\<open>None\<close>.
\<close>

fun fetchmany_loop :: "nat \<Rightarrow> 'r adapter \<Rightarrow> 'r list \<Rightarrow> 'r list \<times> 'r adapter" where
  "fetchmany_loop 0 a result = (result, a)"
| "fetchmany_loop (Suc n) a result =
     (case fetchone a of
        (None, a') \<Rightarrow> (result, a')
      | (Some row, a') \<Rightarrow> fetchmany_loop n a' (result @ [row]))"

text \<open>
  \<^verbatim>\<open>fetchmany(size=None)\<close>. \<^verbatim>\<open>range(size)\<close> is empty for a size that is zero or
  negative, which is \<open>nat sz = 0\<close>; \<open>sz\<close> stands for \<^verbatim>\<open>size\<close>.
\<close>

definition fetchmany :: "int option \<Rightarrow> 'r adapter \<Rightarrow> 'r list \<times> 'r adapter" where
  "fetchmany sz a =
     (let sz = (case sz of None \<Rightarrow> arraysize (cursor a) | Some k \<Rightarrow> k)
      in fetchmany_loop (nat sz) a [])"

text \<open>\<^verbatim>\<open>__next__\<close>: \<^verbatim>\<open>fetchone\<close>, raising \<^verbatim>\<open>StopIteration\<close> on \<^verbatim>\<open>None\<close>.\<close>

definition adapter_next :: "'r adapter \<Rightarrow> (error + 'r) \<times> 'r adapter" where
  "adapter_next a =
     (case fetchone a of
        (None, a') \<Rightarrow> (Inl StopIteration, a')
      | (Some result, a') \<Rightarrow> (Inr result, a'))"

text \<open>The property \<^verbatim>\<open>description\<close>: peeks when the flag is not set.\<close>

definition description :: "'r adapter \<Rightarrow> column_descriptor list option \<times> 'r adapter" where
  "description a =
     (let a1 = (if \<not> initialized a then snd (peekone a) else a)
      in (raw_description (cursor a1), a1))"


text \<open>
  \<^verbatim>\<open>execute\<close> and \<^verbatim>\<open>executemany\<close>. The raw cursor's own method, with its arguments
  applied, is the parameter \<open>raw_execute\<close>: it returns a result and the raw cursor's new
  state.
\<close>

definition execute ::
  "('r raw_cursor \<Rightarrow> 'res \<times> 'r raw_cursor) \<Rightarrow> 'r adapter \<Rightarrow> 'res \<times> 'r adapter" where
  "execute raw_execute a =
     (let a1 = a\<lparr>initialized := False\<rparr>;
          a2 = a1\<lparr>rows := []\<rparr>
      in case raw_execute (cursor a2) of (res, c') \<Rightarrow> (res, a2\<lparr>cursor := c'\<rparr>))"

definition executemany ::
  "('r raw_cursor \<Rightarrow> 'res \<times> 'r raw_cursor) \<Rightarrow> 'r adapter \<Rightarrow> 'res \<times> 'r adapter" where
  "executemany raw_executemany a =
     (let a1 = a\<lparr>initialized := False\<rparr>;
          a2 = a1\<lparr>rows := []\<rparr>
      in case raw_executemany (cursor a2) of (res, c') \<Rightarrow> (res, a2\<lparr>cursor := c'\<rparr>))"

subsection \<open>Clients of the adapter\<close>

text \<open>
  The number of entries the adapter can still hand out before the raw cursor is asked
  again after its last row: the measure under which the two client loops end.
\<close>

definition backlog :: "'r adapter \<Rightarrow> nat" where
  "backlog a = length (rows a) + length (pending (cursor a))"

text \<open>
  Draining by repeated \<^verbatim>\<open>fetchone\<close> calls until the end-of-stream marker comes:
  \<^verbatim>\<open>while (row := adapter.fetchone()) is not None: result.append(row)\<close>.
\<close>

function drain :: "'r adapter \<Rightarrow> 'r list \<times> 'r adapter" where
  "drain a =
     (case fetchone a of
        (None, a') \<Rightarrow> ([], a')
      | (Some row, a') \<Rightarrow> (case drain a' of (result, a'') \<Rightarrow> (row # result, a'')))"
  by pat_completeness auto
termination
  by (relation "measure backlog")
     (auto simp: backlog_def fetchone_def raw_fetchone_def split: list.splits)

text \<open>
  Iterating the adapter, \<^verbatim>\<open>[row for row in adapter]\<close>: \<^verbatim>\<open>__iter__\<close> returns the adapter
  itself and the loop calls \<^verbatim>\<open>__next__\<close> until it raises \<^verbatim>\<open>StopIteration\<close>.
\<close>

function iterate :: "'r adapter \<Rightarrow> 'r list \<times> 'r adapter" where
  "iterate a =
     (case adapter_next a of
        (Inl e, a') \<Rightarrow> ([], a')
      | (Inr row, a') \<Rightarrow> (case iterate a' of (result, a'') \<Rightarrow> (row # result, a'')))"
  by pat_completeness auto
termination
  by (relation "measure backlog")
     (auto simp: backlog_def adapter_next_def fetchone_def raw_fetchone_def
           split: list.splits option.splits)

text \<open>\<open>n\<close> calls of \<^verbatim>\<open>fetchone\<close> in a row, with what each returned.\<close>

fun fetchone_times :: "nat \<Rightarrow> 'r adapter \<Rightarrow> 'r option list \<times> 'r adapter" where
  "fetchone_times 0 a = ([], a)"
| "fetchone_times (Suc n) a =
     (case fetchone a of (x, a') \<Rightarrow>
        (case fetchone_times n a' of (xs, a'') \<Rightarrow> (x # xs, a'')))"

subsection \<open>The adapter's stream\<close>

text \<open>
  What \<^verbatim>\<open>fetchone\<close> will return, call after call, until the raw cursor reports the end
  of its result set: the buffer from the front, then the rows the raw cursor still has.
\<close>

definition logical :: "'r adapter \<Rightarrow> 'r option list" where
  "logical a = rows a @ map Some (pending (cursor a))"

text \<open>The rows a client gets before the first end-of-stream marker.\<close>

definition deliverable :: "'r adapter \<Rightarrow> 'r list" where
  "deliverable a = map the (takeWhile (\<lambda>x. x \<noteq> None) (logical a))"

text \<open>The number of rows not yet delivered: the rows in the buffer and the rows to come.\<close>

definition remaining :: "'r adapter \<Rightarrow> nat" where
  "remaining a = length (filter (\<lambda>x. x \<noteq> None) (rows a)) + length (pending (cursor a))"

text \<open>
  No row waits behind an end-of-stream marker: whatever follows the first marker of the
  adapter's stream is a marker too. This is so in every state reached with at most one
  peek since the last \<^verbatim>\<open>execute\<close>.
\<close>

definition marker_last :: "'r adapter \<Rightarrow> bool" where
  "marker_last a = list_all (\<lambda>x. x = None) (dropWhile (\<lambda>x. x \<noteq> None) (logical a))"

subsection \<open>An example raw cursor\<close>

text \<open>
  A raw cursor on which nothing has been fetched yet, with the given rows to emit and the
  given row count; the rows are strings. It is used to run the theorems on concrete input.
\<close>

definition example_cursor :: "string list \<Rightarrow> int \<Rightarrow> string raw_cursor" where
  "example_cursor rs n =
     \<lparr>pending = rs, columns = [], fetch_attempted = False, fetch_count = 0,
      raw_rowcount = n, arraysize = 2\<rparr>"

subsection \<open>Facts about the type mapper\<close>

lemma partition_char_before:
  "fst (partition_char sep s) = takeWhile (\<lambda>c. c \<noteq> sep) s"
  by (induction s) (auto split: prod.splits)

lemma map_of_spec_table: "map_of spec_table k = map_of type_map k"
  by (simp add: spec_table_def type_map_def)

lemma dict_get_type_map_range:
  "dict_get type_map k ''STRING'' \<in>
     {''BOOL'', ''INT64'', ''FLOAT64'', ''NUMERIC'', ''STRING'', ''BYTES'',
      ''DATE'', ''TIME'', ''TIMESTAMP''}"
  by (simp add: dict_get_def type_map_def)

lemma field_to_bigquery_Some:
  "type_code field = Some t \<Longrightarrow>
   field_to_bigquery str_upper field =
     Inr \<lparr>bq_name = name field,
          bq_type =
            dict_get type_map (takeWhile (\<lambda>c. c \<noteq> CHR ''('') (str_upper t)) ''STRING''\<rparr>"
  by (simp add: field_to_bigquery_def partition_char_before)

subsection \<open>Facts about the adapter\<close>

declare drain.simps [simp del] iterate.simps [simp del]

lemma fetchone_buffered: "rows a = x # xs \<Longrightarrow> fetchone a = (x, a\<lparr>rows := xs\<rparr>)"
  by (simp add: fetchone_def)

lemma fetchone_logical_Nil:
  "logical a = [] \<Longrightarrow> fst (fetchone a) = None \<and> logical (snd (fetchone a)) = []"
  by (simp add: logical_def fetchone_def raw_fetchone_def)

lemma fetchone_logical_Cons:
  "logical a = x # xs \<Longrightarrow> fst (fetchone a) = x \<and> logical (snd (fetchone a)) = xs"
  by (cases "rows a"; cases "pending (cursor a)")
     (auto simp: logical_def fetchone_def raw_fetchone_def)

lemma fetchone_initialized: "initialized (snd (fetchone a)) = initialized a"
  by (simp add: fetchone_def raw_fetchone_def split: list.splits)

lemma fetchone_rowcount: "raw_rowcount (cursor (snd (fetchone a))) = raw_rowcount (cursor a)"
  by (simp add: fetchone_def raw_fetchone_def split: list.splits)

lemma drain_logical:
  "logical a = xs \<Longrightarrow>
   fst (drain a) = map the (takeWhile (\<lambda>x. x \<noteq> None) xs)
   \<and> logical (snd (drain a)) = tl (dropWhile (\<lambda>x. x \<noteq> None) xs)
   \<and> initialized (snd (drain a)) = initialized a
   \<and> raw_rowcount (cursor (snd (drain a))) = raw_rowcount (cursor a)"
proof (induction xs arbitrary: a)
  case Nil
  then show ?case
    using fetchone_logical_Nil [of a] fetchone_initialized [of a] fetchone_rowcount [of a]
    by (cases "fetchone a") (simp add: drain.simps [of a])
next
  case (Cons x xs)
  obtain y a' where f: "fetchone a = (y, a')" by (cases "fetchone a")
  with Cons.prems fetchone_logical_Cons [of a x xs]
  have y: "y = x" and l: "logical a' = xs" by simp_all
  from f fetchone_initialized [of a] fetchone_rowcount [of a]
  have i: "initialized a' = initialized a"
    and r: "raw_rowcount (cursor a') = raw_rowcount (cursor a)" by simp_all
  show ?case
  proof (cases x)
    case None
    with f y l i r show ?thesis by (simp add: drain.simps [of a])
  next
    case (Some row)
    with f y i r Cons.IH [OF l] show ?thesis
      by (simp add: drain.simps [of a] case_prod_beta)
  qed
qed

lemma iterate_drain: "logical a = xs \<Longrightarrow> iterate a = drain a"
proof (induction xs arbitrary: a)
  case Nil
  then show ?case
    using fetchone_logical_Nil [of a]
    by (cases "fetchone a") (simp add: drain.simps [of a] iterate.simps [of a] adapter_next_def)
next
  case (Cons x xs)
  obtain y a' where f: "fetchone a = (y, a')" by (cases "fetchone a")
  with Cons.prems fetchone_logical_Cons [of a x xs]
  have y: "y = x" and l: "logical a' = xs" by simp_all
  show ?case
    using f y Cons.IH [OF l]
    by (cases x) (simp_all add: drain.simps [of a] iterate.simps [of a] adapter_next_def)
qed

lemma fetchmany_loop_logical:
  "logical a = xs \<Longrightarrow>
   fst (fetchmany_loop n a acc) = acc @ take n (map the (takeWhile (\<lambda>x. x \<noteq> None) xs))
   \<and> initialized (snd (fetchmany_loop n a acc)) = initialized a"
proof (induction n arbitrary: a acc xs)
  case 0
  then show ?case by simp
next
  case (Suc n)
  obtain y a' where f: "fetchone a = (y, a')" by (cases "fetchone a")
  from f fetchone_initialized [of a] have i: "initialized a' = initialized a" by simp
  show ?case
  proof (cases xs)
    case Nil
    with Suc.prems f fetchone_logical_Nil [of a] i show ?thesis by simp
  next
    case (Cons x xs')
    with Suc.prems f fetchone_logical_Cons [of a x xs']
    have y: "y = x" and l: "logical a' = xs'" by simp_all
    show ?thesis
    proof (cases x)
      case None
      with f y i Cons show ?thesis by simp
    next
      case (Some row)
      with f y i Cons Suc.IH [OF l, of "acc @ [row]"] show ?thesis by simp
    qed
  qed
qed

lemma filter_all_markers: "list_all (\<lambda>x. \<not> P x) xs \<Longrightarrow> filter P xs = []"
  by (induction xs) simp_all

lemma filter_takeWhile_markers:
  "list_all (\<lambda>x. \<not> P x) (dropWhile P xs) \<Longrightarrow> filter P xs = takeWhile P xs"
proof (induction xs)
  case Nil
  show ?case by simp
next
  case (Cons x xs)
  show ?case
  proof (cases "P x")
    case True
    with Cons show ?thesis by simp
  next
    case False
    with Cons.prems have "list_all (\<lambda>x. \<not> P x) xs" by simp
    then have "filter P xs = []" by (rule filter_all_markers)
    with False show ?thesis by simp
  qed
qed

lemma remaining_logical: "remaining a = length (filter (\<lambda>x. x \<noteq> None) (logical a))"
  by (simp add: remaining_def logical_def filter_map comp_def)

lemma remaining_deliverable: "marker_last a \<Longrightarrow> remaining a = length (deliverable a)"
  using filter_takeWhile_markers [of "\<lambda>x. x \<noteq> None" "logical a"]
  by (simp add: remaining_logical deliverable_def marker_last_def)

lemma peekone_eq:
  "peekone a =
     (fst (raw_fetchone (cursor a)),
      a\<lparr>initialized := True, cursor := snd (raw_fetchone (cursor a)),
        rows := fst (raw_fetchone (cursor a)) # rows a\<rparr>)"
  by (simp add: peekone_def case_prod_beta)

lemma raw_fetchone_count: "fetch_count (snd (raw_fetchone c)) = Suc (fetch_count c)"
  by (simp add: raw_fetchone_def split: list.splits)

lemma raw_fetchone_description:
  "raw_description (snd (raw_fetchone c)) = Some (columns c)"
  by (simp add: raw_fetchone_def raw_description_def split: list.splits)

lemma raw_fetchone_stream:
  "(case fst (raw_fetchone c) of None \<Rightarrow> [] | Some r \<Rightarrow> [Some r])
     @ map Some (pending (snd (raw_fetchone c))) = map Some (pending c)"
  by (simp add: raw_fetchone_def split: list.splits)

lemma raw_fetchone_exhausted:
  "pending c = [] \<Longrightarrow> fst (raw_fetchone c) = None \<and> pending (snd (raw_fetchone c)) = []"
  by (simp add: raw_fetchone_def)

lemma description_uninitialized:
  "\<not> initialized a \<Longrightarrow> description a = (Some (columns (cursor a)), snd (peekone a))"
  by (simp add: description_def peekone_eq raw_fetchone_description)

lemma description_initialized:
  "initialized a \<Longrightarrow> description a = (raw_description (cursor a), a)"
  by (simp add: description_def)

lemma drain_deliverable: "fst (drain a) = deliverable a"
  using drain_logical [of a "logical a"] by (simp add: deliverable_def)

lemma iterate_deliverable: "fst (iterate a) = deliverable a"
  using iterate_drain [of a "logical a"] by (simp add: drain_deliverable)

lemma fetchmany_deliverable:
  "fst (fetchmany sz a) =
     take (nat (case sz of None \<Rightarrow> arraysize (cursor a) | Some k \<Rightarrow> k)) (deliverable a)"
  using fetchmany_loop_logical [of a "logical a" _ "[]"]
  by (simp add: fetchmany_def deliverable_def)

lemma peekone_deliverable:
  "rows a = [] \<Longrightarrow> deliverable (snd (peekone a)) = deliverable a"
  by (cases "pending (cursor a)")
     (simp_all add: peekone_eq deliverable_def logical_def raw_fetchone_def)

lemma deliverable_init: "deliverable (adapter_init c) = pending c"
  by (simp add: deliverable_def logical_def adapter_init_def takeWhile_map comp_def)

lemma fetchone_after_peekone:
  "fetchone (snd (peekone a)) = (fst (peekone a), (snd (peekone a))\<lparr>rows := rows a\<rparr>)"
  by (simp add: peekone_eq fetchone_def)

lemma deliverable_empty_buffer: "rows a = [] \<Longrightarrow> deliverable a = pending (cursor a)"
  by (simp add: deliverable_def logical_def takeWhile_map comp_def)

lemma dropWhile_rows: "dropWhile (\<lambda>x. x \<noteq> None) (map Some rs) = []"
  by (induction rs) simp_all


lemma marker_last_single_peek: "rows a = [] \<Longrightarrow> marker_last (snd (peekone a))"
proof (cases "pending (cursor a)")
  case Nil
  assume "rows a = []"
  with Nil show ?thesis
    by (simp add: marker_last_def logical_def peekone_eq raw_fetchone_def)
next
  case (Cons r rs)
  assume "rows a = []"
  with Cons have "logical (snd (peekone a)) = map Some (r # rs)"
    by (simp add: logical_def peekone_eq raw_fetchone_def)
  then show ?thesis
    unfolding marker_last_def by (simp only: dropWhile_rows list.pred_inject)
qed

lemma list_all_dropWhile_tail:
  "list_all (\<lambda>x. \<not> P x) (dropWhile P (x # xs)) \<Longrightarrow> list_all (\<lambda>x. \<not> P x) (dropWhile P xs)"
proof (cases "P x")
  case True
  assume "list_all (\<lambda>x. \<not> P x) (dropWhile P (x # xs))"
  with True show ?thesis by simp
next
  case False
  assume "list_all (\<lambda>x. \<not> P x) (dropWhile P (x # xs))"
  with False have "list_all (\<lambda>x. \<not> P x) xs" by simp
  then show ?thesis by (induction xs) simp_all
qed

lemma marker_last_fetchone: "marker_last a \<Longrightarrow> marker_last (snd (fetchone a))"
proof (cases "logical a")
  case Nil
  then show ?thesis using fetchone_logical_Nil [of a] by (simp add: marker_last_def)
next
  case (Cons x xs)
  assume "marker_last a"
  with Cons have "list_all (\<lambda>x. \<not> x \<noteq> None) (dropWhile (\<lambda>x. x \<noteq> None) (x # xs))"
    by (simp add: marker_last_def)
  then have "list_all (\<lambda>x. \<not> x \<noteq> None) (dropWhile (\<lambda>x. x \<noteq> None) xs)"
    by (rule list_all_dropWhile_tail)
  with Cons fetchone_logical_Cons [of a x xs] show ?thesis by (simp add: marker_last_def)
qed





lemma iterate_initialized: "initialized (snd (iterate a)) = initialized a"
  using iterate_drain [of a "logical a"] drain_logical [of a "logical a"] by simp


lemma fetchmany_initialized: "initialized (snd (fetchmany sz a)) = initialized a"
  using fetchmany_loop_logical [of a "logical a" _ "[]"] by (simp add: fetchmany_def)

lemma execute_eq:
  "execute ex a =
     (fst (ex (cursor a)), \<lparr>cursor = snd (ex (cursor a)), rows = [], initialized = False\<rparr>)"
  by (simp add: execute_def case_prod_beta)

lemma executemany_eq:
  "executemany ex a =
     (fst (ex (cursor a)), \<lparr>cursor = snd (ex (cursor a)), rows = [], initialized = False\<rparr>)"
  by (simp add: executemany_def case_prod_beta)

lemma fetchone_times_unbuffered:
  "rows a = [] \<Longrightarrow> fetchone_times n a = (xs, a') \<Longrightarrow>
   rows a' = [] \<and> initialized a' = initialized a
   \<and> pending (cursor a') = drop n (pending (cursor a))
   \<and> xs = take n (map Some (pending (cursor a))) @ replicate (n - length (pending (cursor a))) None"
proof (induction n arbitrary: a xs a')
  case 0
  then show ?case by simp
next
  case (Suc n)
  obtain y b where f: "fetchone a = (y, b)" by (cases "fetchone a")
  obtain ys b' where t: "fetchone_times n b = (ys, b')" by (cases "fetchone_times n b")
  from Suc.prems(2) f t have xs: "xs = y # ys" and a': "a' = b'" by simp_all
  show ?case
  proof (cases "pending (cursor a)")
    case Nil
    with Suc.prems(1) f have y: "y = None" and b: "rows b = []" "initialized b = initialized a"
      "pending (cursor b) = []"
      by (auto simp: fetchone_def raw_fetchone_def)
    from Suc.IH [OF b(1) t] b y xs a' Nil show ?thesis by simp
  next
    case (Cons r rs)
    with Suc.prems(1) f have y: "y = Some r" and b: "rows b = []" "initialized b = initialized a"
      "pending (cursor b) = rs"
      by (auto simp: fetchone_def raw_fetchone_def)
    from Suc.IH [OF b(1) t] b y xs a' Cons show ?thesis by simp
  qed
qed

lemma adapter_next_state: "snd (adapter_next a) = snd (fetchone a)"
  by (cases "fetchone a") (simp add: adapter_next_def split: option.splits)

lemma marker_last_fetchmany_loop:
  "marker_last a \<Longrightarrow> marker_last (snd (fetchmany_loop n a acc))"
proof (induction n arbitrary: a acc)
  case 0
  then show ?case by simp
next
  case (Suc n)
  obtain y b where f: "fetchone a = (y, b)" by (cases "fetchone a")
  with Suc.prems marker_last_fetchone [of a] have b: "marker_last b" by simp
  show ?case
  proof (cases y)
    case None
    with f b show ?thesis by simp
  next
    case (Some row)
    with f Suc.IH [OF b, of "acc @ [row]"] show ?thesis by simp
  qed
qed

subsection \<open>Claims about the type mapper\<close>

text \<open>
  Claim C3. For every column descriptor with a type code, \<open>field_to_bigquery\<close> uppercases
  the type code, cuts it at the first opening parenthesis, looks the result up in the
  static table and falls back to \<open>STRING\<close> for an absent key, which is what
  \<open>spec_mapType\<close> says in the words of the specification, whatever the runtime's
  uppercasing is; the descriptor's name is carried through unchanged. When the
  uppercasing does on ASCII strings what Python's does, the result for an ASCII type code
  is the one computed with the letters a to z mapped to A to Z, and in particular
  \<open>DECIMAL(10,2)\<close> maps to \<open>NUMERIC\<close>, \<open>time with time zone\<close> to \<open>STRING\<close>, the unknown type
  \<open>MAP\<close> to \<open>STRING\<close> and \<open>BIGINT\<close> to \<open>INT64\<close>.
\<close>

theorem field_to_bigquery_as_specified:
  "(type_code field = Some t \<longrightarrow>
      field_to_bigquery str_upper field =
        Inr \<lparr>bq_name = name field, bq_type = spec_mapType str_upper t\<rparr>)
   \<and> ((\<forall>s. isascii s \<longrightarrow> str_upper s = ascii_upper s) \<longrightarrow>
        (type_code field = Some t \<and> isascii t \<longrightarrow>
           field_to_bigquery str_upper field =
             Inr \<lparr>bq_name = name field, bq_type = spec_mapType ascii_upper t\<rparr>)
        \<and> field_to_bigquery str_upper (field\<lparr>type_code := Some ''DECIMAL(10,2)''\<rparr>) =
            Inr \<lparr>bq_name = name field, bq_type = ''NUMERIC''\<rparr>
        \<and> field_to_bigquery str_upper (field\<lparr>type_code := Some ''time with time zone''\<rparr>) =
            Inr \<lparr>bq_name = name field, bq_type = ''STRING''\<rparr>
        \<and> field_to_bigquery str_upper (field\<lparr>type_code := Some ''MAP''\<rparr>) =
            Inr \<lparr>bq_name = name field, bq_type = ''STRING''\<rparr>
        \<and> field_to_bigquery str_upper (field\<lparr>type_code := Some ''BIGINT''\<rparr>) =
            Inr \<lparr>bq_name = name field, bq_type = ''INT64''\<rparr>)"
proof -
  have general:
    "field_to_bigquery up f = Inr \<lparr>bq_name = name f, bq_type = spec_mapType up u\<rparr>"
    if "type_code f = Some u" for f u and up :: "string \<Rightarrow> string"
    using that
    by (simp add: field_to_bigquery_Some spec_mapType_def spec_normalize_def dict_get_def
                  map_of_spec_table)
  have on_ascii: "spec_mapType str_upper u = spec_mapType ascii_upper u"
    if "\<forall>s. isascii s \<longrightarrow> str_upper s = ascii_upper s" and "isascii u" for u
    using that by (simp add: spec_mapType_def spec_normalize_def)
  have a1: "isascii ''DECIMAL(10,2)''" by (simp add: isascii_def)
  have a2: "isascii ''time with time zone''" by (simp add: isascii_def)
  have a3: "isascii ''MAP''" by (simp add: isascii_def)
  have a4: "isascii ''BIGINT''" by (simp add: isascii_def)
  have decimal: "spec_mapType ascii_upper ''DECIMAL(10,2)'' = ''NUMERIC''"
    by (simp add: spec_mapType_def spec_normalize_def spec_table_def ascii_upper_def
                  upper_char_def)
  have time_tz: "spec_mapType ascii_upper ''time with time zone'' = ''STRING''"
    by (simp add: spec_mapType_def spec_normalize_def spec_table_def ascii_upper_def
                  upper_char_def)
  have unknown: "spec_mapType ascii_upper ''MAP'' = ''STRING''"
    by (simp add: spec_mapType_def spec_normalize_def spec_table_def ascii_upper_def
                  upper_char_def)
  have bigint: "spec_mapType ascii_upper ''BIGINT'' = ''INT64''"
    by (simp add: spec_mapType_def spec_normalize_def spec_table_def ascii_upper_def
                  upper_char_def)
  show ?thesis
    using on_ascii [of t] on_ascii [OF _ a1] on_ascii [OF _ a2] on_ascii [OF _ a3]
      on_ascii [OF _ a4] decimal time_tz unknown bigint
    by (simp add: general)
qed

theorem field_to_bigquery_as_specified_witness:
  "type_code \<lparr>name = Some ''price'', type_code = Some ''decimal(10,2)'', display_size = None,
       internal_size = None, precision = None, scale = None, null_ok = None\<rparr>
     = Some ''decimal(10,2)''
   \<and> isascii ''decimal(10,2)''
   \<and> field_to_bigquery ascii_upper
       \<lparr>name = Some ''price'', type_code = Some ''decimal(10,2)'', display_size = None,
        internal_size = None, precision = None, scale = None, null_ok = None\<rparr>
     = Inr \<lparr>bq_name = Some ''price'', bq_type = ''NUMERIC''\<rparr>"
  using field_to_bigquery_as_specified
    [of "\<lparr>name = Some ''price'', type_code = Some ''decimal(10,2)'', display_size = None,
         internal_size = None, precision = None, scale = None, null_ok = None\<rparr>"
        "''decimal(10,2)''" ascii_upper]
  by (simp add: isascii_def spec_mapType_def spec_normalize_def spec_table_def ascii_upper_def
                upper_char_def)

text \<open>
  Claim C8. For every column descriptor whose type code is not \<open>None\<close>,
  \<open>field_to_bigquery\<close> returns a result (it does not raise), the result carries the
  descriptor's name, and its type is one of the nine target types of the table, whatever
  the type code is, unknown and malformed type codes included, and whatever the
  runtime's uppercasing returns for it.
\<close>

theorem field_to_bigquery_total:
  "type_code field = Some t \<Longrightarrow>
   \<exists>target. field_to_bigquery str_upper field = Inr \<lparr>bq_name = name field, bq_type = target\<rparr>
     \<and> target \<in> {''BOOL'', ''INT64'', ''FLOAT64'', ''NUMERIC'', ''STRING'', ''BYTES'',
                 ''DATE'', ''TIME'', ''TIMESTAMP''}"
  using dict_get_type_map_range [of "takeWhile (\<lambda>c. c \<noteq> CHR ''('') (str_upper t)"]
  by (simp add: field_to_bigquery_Some)

theorem field_to_bigquery_total_witness:
  "type_code \<lparr>name = Some ''payload'', type_code = Some ''array(row(x integer))'',
       display_size = None, internal_size = None, precision = None, scale = None,
       null_ok = None\<rparr> = Some ''array(row(x integer))''
   \<and> (\<exists>target. field_to_bigquery ascii_upper
         \<lparr>name = Some ''payload'', type_code = Some ''array(row(x integer))'',
          display_size = None, internal_size = None, precision = None, scale = None,
          null_ok = None\<rparr> = Inr \<lparr>bq_name = Some ''payload'', bq_type = target\<rparr>
       \<and> target \<in> {''BOOL'', ''INT64'', ''FLOAT64'', ''NUMERIC'', ''STRING'', ''BYTES'',
                   ''DATE'', ''TIME'', ''TIMESTAMP''})"
  using field_to_bigquery_total
    [of "\<lparr>name = Some ''payload'', type_code = Some ''array(row(x integer))'',
         display_size = None, internal_size = None, precision = None, scale = None,
         null_ok = None\<rparr>" "''array(row(x integer))''" ascii_upper]
  by simp

subsection \<open>Claims about the cursor adapter\<close>

text \<open>
  Claim C1. Let the raw cursor emit the rows \<open>pending c\<close> in that order. After the one
  peek that the first access to \<open>description\<close> makes on a new adapter (the raw cursor has
  been asked exactly once), draining the adapter by repeated \<open>fetchone\<close> calls delivers
  exactly \<open>pending c\<close>: the same rows in the same order, none left out, none twice. And
  in every state, a \<open>fetchone\<close> on a buffer that is not empty returns the front of the
  buffer and leaves the raw cursor as it is: buffered rows go out before any new row is
  pulled.
\<close>

theorem single_peek_drain_in_order:
  "fst (drain (snd (description (adapter_init c)))) = pending c
   \<and> fetch_count (cursor (snd (description (adapter_init c)))) = Suc (fetch_count c)
   \<and> (rows a = x # xs \<longrightarrow> fetchone a = (x, a\<lparr>rows := xs\<rparr>))"
proof -
  have fresh: "\<not> initialized (adapter_init c)" "rows (adapter_init c) = []"
    "cursor (adapter_init c) = c"
    by (simp_all add: adapter_init_def)
  have d: "snd (description (adapter_init c)) = snd (peekone (adapter_init c))"
    using fresh(1) by (simp add: description_uninitialized)
  have "fst (drain (snd (description (adapter_init c)))) = pending c"
    using fresh(2) by (simp add: d drain_deliverable peekone_deliverable deliverable_init)
  moreover have "fetch_count (cursor (snd (description (adapter_init c)))) = Suc (fetch_count c)"
    by (simp add: d peekone_eq fresh(3) raw_fetchone_count)
  ultimately show ?thesis by (simp add: fetchone_buffered)
qed

theorem single_peek_drain_in_order_witness:
  "fst (drain (snd (description (adapter_init (example_cursor [''R1'', ''R2'', ''R3''] 3)))))
     = [''R1'', ''R2'', ''R3'']
   \<and> rows \<lparr>cursor = example_cursor [''R2''] 2, rows = [Some ''R1''], initialized = True\<rparr>
       = Some ''R1'' # []
   \<and> fetchone \<lparr>cursor = example_cursor [''R2''] 2, rows = [Some ''R1''], initialized = True\<rparr>
       = (Some ''R1'',
          \<lparr>cursor = example_cursor [''R2''] 2, rows = [], initialized = True\<rparr>)"
  using single_peek_drain_in_order
    [of "example_cursor [''R1'', ''R2'', ''R3''] 3"
        "\<lparr>cursor = example_cursor [''R2''] 2, rows = [Some ''R1''], initialized = True\<rparr>"
        "Some ''R1''" "[]"]
  by (simp add: example_cursor_def)

text \<open>
  Claim C2. When the flag \<open>initialized\<close> is not set, the access to \<open>description\<close> is
  exactly one \<open>peekone\<close>, which is exactly one fetch from the raw cursor, and it returns
  the raw cursor's column descriptors, now populated. Afterwards the flag is set, and an
  access with the flag set changes nothing in the adapter, so it neither peeks nor
  fetches; every access returns the raw cursor's own \<open>description\<close>, unchanged.
\<close>

theorem description_peeks_once:
  "initialized (snd (description a))
   \<and> fst (description a) = raw_description (cursor (snd (description a)))
   \<and> (\<not> initialized a \<longrightarrow>
        snd (description a) = snd (peekone a)
        \<and> fetch_count (cursor (snd (description a))) = Suc (fetch_count (cursor a))
        \<and> fst (description a) = Some (columns (cursor a)))
   \<and> (initialized a \<longrightarrow> snd (description a) = a)
   \<and> description (snd (description a)) = description a"
proof (cases "initialized a")
  case True
  then show ?thesis by (simp add: description_initialized)
next
  case False
  have i: "initialized (snd (peekone a))" by (simp add: peekone_eq)
  have r: "raw_description (cursor (snd (peekone a))) = Some (columns (cursor a))"
    by (simp add: peekone_eq raw_fetchone_description)
  have n: "fetch_count (cursor (snd (peekone a))) = Suc (fetch_count (cursor a))"
    by (simp add: peekone_eq raw_fetchone_count)
  from False i r n show ?thesis
    by (simp add: description_uninitialized description_initialized)
qed

theorem description_peeks_once_witness:
  "\<not> initialized (adapter_init (example_cursor [''R1'', ''R2''] 2))
   \<and> description (adapter_init (example_cursor [''R1'', ''R2''] 2)) =
       (Some [],
        \<lparr>cursor = \<lparr>pending = [''R2''], columns = [], fetch_attempted = True, fetch_count = 1,
                   raw_rowcount = 2, arraysize = 2\<rparr>,
         rows = [Some ''R1''], initialized = True\<rparr>)
   \<and> initialized (snd (description (adapter_init (example_cursor [''R1'', ''R2''] 2))))
   \<and> description (snd (description (adapter_init (example_cursor [''R1'', ''R2''] 2)))) =
       description (adapter_init (example_cursor [''R1'', ''R2''] 2))"
  using description_peeks_once [of "adapter_init (example_cursor [''R1'', ''R2''] 2)"]
  by (simp add: adapter_init_def example_cursor_def description_def peekone_def
                raw_fetchone_def raw_description_def)

text \<open>
  Claim C7. \<open>peekone\<close> returns what the raw cursor's \<open>fetchone\<close> returns, puts it at the
  front of the buffer and sets the flag; the \<open>fetchone\<close> right after it returns exactly
  the peeked row and restores the buffer, and on an empty buffer the peek does not change
  what the adapter will deliver. After two peeks in a row the next two \<open>fetchone\<close> calls
  return the second peeked row first and the first peeked row second: with \<open>r1, r2\<close> the
  next rows of the raw cursor, the client receives \<open>r2\<close> and then \<open>r1\<close>.
\<close>

theorem peek_then_fetch:
  assumes "peekone a = (p1, a1)" and "peekone a1 = (p2, a2)"
    and "fetchone a2 = (f1, a3)" and "fetchone a3 = (f2, a4)"
  shows "p1 = fst (raw_fetchone (cursor a))
   \<and> rows a1 = p1 # rows a
   \<and> initialized a1
   \<and> fetchone a1 = (p1, a1\<lparr>rows := rows a\<rparr>)
   \<and> (rows a = [] \<longrightarrow> deliverable a1 = deliverable a)
   \<and> f1 = p2 \<and> f2 = p1 \<and> rows a4 = rows a
   \<and> (\<forall>r1 r2 rs. pending (cursor a) = r1 # r2 # rs \<longrightarrow> f1 = Some r2 \<and> f2 = Some r1)"
proof -
  from assms(1) have p1: "p1 = fst (peekone a)" and a1: "a1 = snd (peekone a)" by simp_all
  from assms(2) have p2: "p2 = fst (peekone a1)" and a2: "a2 = snd (peekone a1)" by simp_all
  have one: "fetchone a1 = (p1, a1\<lparr>rows := rows a\<rparr>)"
    unfolding p1 a1 by (rule fetchone_after_peekone)
  have r1: "rows a1 = p1 # rows a" by (simp add: p1 a1 peekone_eq)
  have two: "fetchone a2 = (p2, a2\<lparr>rows := rows a1\<rparr>)"
    unfolding p2 a2 by (rule fetchone_after_peekone)
  with assms(3) have f1: "f1 = p2" and a3: "a3 = a2\<lparr>rows := rows a1\<rparr>" by simp_all
  have "fetchone a3 = (p1, a3\<lparr>rows := rows a\<rparr>)"
    by (simp add: a3 r1 fetchone_def)
  with assms(4) have f2: "f2 = p1" and a4: "a4 = a3\<lparr>rows := rows a\<rparr>" by simp_all
  have raw: "p1 = fst (raw_fetchone (cursor a))" by (simp add: p1 peekone_eq)
  have order: "p2 = Some r2 \<and> p1 = Some r1" if "pending (cursor a) = r1 # r2 # rs" for r1 r2 rs
    using that by (simp add: p1 p2 a1 peekone_eq raw_fetchone_def)
  have keep: "rows a = [] \<longrightarrow> deliverable a1 = deliverable a"
    by (simp add: a1 peekone_deliverable)
  have init: "initialized a1" by (simp add: a1 peekone_eq)
  from raw r1 init one keep f1 f2 a4 order show ?thesis by simp
qed

theorem peek_then_fetch_witness:
  "peekone (adapter_init (example_cursor [''R1'', ''R2'', ''R3''] 3)) =
     (Some ''R1'',
      \<lparr>cursor = \<lparr>pending = [''R2'', ''R3''], columns = [], fetch_attempted = True,
                 fetch_count = 1, raw_rowcount = 3, arraysize = 2\<rparr>,
       rows = [Some ''R1''], initialized = True\<rparr>)
   \<and> peekone
       \<lparr>cursor = \<lparr>pending = [''R2'', ''R3''], columns = [], fetch_attempted = True,
                  fetch_count = 1, raw_rowcount = 3, arraysize = 2\<rparr>,
        rows = [Some ''R1''], initialized = True\<rparr> =
     (Some ''R2'',
      \<lparr>cursor = \<lparr>pending = [''R3''], columns = [], fetch_attempted = True,
                 fetch_count = 2, raw_rowcount = 3, arraysize = 2\<rparr>,
       rows = [Some ''R2'', Some ''R1''], initialized = True\<rparr>)
   \<and> fetchone
       \<lparr>cursor = \<lparr>pending = [''R3''], columns = [], fetch_attempted = True,
                  fetch_count = 2, raw_rowcount = 3, arraysize = 2\<rparr>,
        rows = [Some ''R2'', Some ''R1''], initialized = True\<rparr> =
     (Some ''R2'',
      \<lparr>cursor = \<lparr>pending = [''R3''], columns = [], fetch_attempted = True,
                 fetch_count = 2, raw_rowcount = 3, arraysize = 2\<rparr>,
       rows = [Some ''R1''], initialized = True\<rparr>)
   \<and> fetchone
       \<lparr>cursor = \<lparr>pending = [''R3''], columns = [], fetch_attempted = True,
                  fetch_count = 2, raw_rowcount = 3, arraysize = 2\<rparr>,
        rows = [Some ''R1''], initialized = True\<rparr> =
     (Some ''R1'',
      \<lparr>cursor = \<lparr>pending = [''R3''], columns = [], fetch_attempted = True,
                 fetch_count = 2, raw_rowcount = 3, arraysize = 2\<rparr>,
       rows = [], initialized = True\<rparr>)
   \<and> deliverable
       \<lparr>cursor = \<lparr>pending = [''R2'', ''R3''], columns = [], fetch_attempted = True,
                  fetch_count = 1, raw_rowcount = 3, arraysize = 2\<rparr>,
        rows = [Some ''R1''], initialized = True\<rparr> =
     deliverable (adapter_init (example_cursor [''R1'', ''R2'', ''R3''] 3))"
proof -
  have h1: "peekone (adapter_init (example_cursor [''R1'', ''R2'', ''R3''] 3)) =
     (Some ''R1'',
      \<lparr>cursor = \<lparr>pending = [''R2'', ''R3''], columns = [], fetch_attempted = True,
                 fetch_count = 1, raw_rowcount = 3, arraysize = 2\<rparr>,
       rows = [Some ''R1''], initialized = True\<rparr>)"
    by (simp add: adapter_init_def example_cursor_def peekone_def raw_fetchone_def)
  have h2: "peekone
       \<lparr>cursor = \<lparr>pending = [''R2'', ''R3''], columns = [], fetch_attempted = True,
                  fetch_count = 1, raw_rowcount = 3, arraysize = 2\<rparr>,
        rows = [Some ''R1''], initialized = True\<rparr> =
     (Some ''R2'',
      \<lparr>cursor = \<lparr>pending = [''R3''], columns = [], fetch_attempted = True,
                 fetch_count = 2, raw_rowcount = 3, arraysize = 2\<rparr>,
       rows = [Some ''R2'', Some ''R1''], initialized = True\<rparr>)"
    by (simp add: peekone_def raw_fetchone_def)
  have h3: "fetchone
       \<lparr>cursor = \<lparr>pending = [''R3''], columns = [], fetch_attempted = True,
                  fetch_count = 2, raw_rowcount = 3, arraysize = 2\<rparr>,
        rows = [Some ''R2'', Some ''R1''], initialized = True\<rparr> =
     (Some ''R2'',
      \<lparr>cursor = \<lparr>pending = [''R3''], columns = [], fetch_attempted = True,
                 fetch_count = 2, raw_rowcount = 3, arraysize = 2\<rparr>,
       rows = [Some ''R1''], initialized = True\<rparr>)"
    by (simp add: fetchone_def)
  have h4: "fetchone
       \<lparr>cursor = \<lparr>pending = [''R3''], columns = [], fetch_attempted = True,
                  fetch_count = 2, raw_rowcount = 3, arraysize = 2\<rparr>,
        rows = [Some ''R1''], initialized = True\<rparr> =
     (Some ''R1'',
      \<lparr>cursor = \<lparr>pending = [''R3''], columns = [], fetch_attempted = True,
                 fetch_count = 2, raw_rowcount = 3, arraysize = 2\<rparr>,
       rows = [], initialized = True\<rparr>)"
    by (simp add: fetchone_def)
  have h5: "rows (adapter_init (example_cursor [''R1'', ''R2'', ''R3''] 3)) = []"
    by (simp add: adapter_init_def)
  from peek_then_fetch [OF h1 h2 h3 h4] h5
  have h6: "deliverable
       \<lparr>cursor = \<lparr>pending = [''R2'', ''R3''], columns = [], fetch_attempted = True,
                  fetch_count = 1, raw_rowcount = 3, arraysize = 2\<rparr>,
        rows = [Some ''R1''], initialized = True\<rparr> =
     deliverable (adapter_init (example_cursor [''R1'', ''R2'', ''R3''] 3))"
    by blast
  from h1 h2 h3 h4 h6 show ?thesis by (intro conjI)
qed

text \<open>
  Claim C4, as stated, fails in two ways. With size 0 and one row to come, \<open>fetchmany\<close>
  returns the empty list although the stream is not exhausted. After two peeks on a result
  set of one row the buffer is \<open>[None, Some R1]\<close>: \<open>fetchmany\<close> with size 5 stops at the
  marker and returns no row although one row is still undelivered.
\<close>

theorem fetchmany_claim_counterexample:
  "\<not> (fst (fetchmany (Some 0) (adapter_init (example_cursor [''R1''] 1))) = []
        \<longleftrightarrow> remaining (adapter_init (example_cursor [''R1''] 1)) = 0)
   \<and> length (fst (fetchmany (Some 5)
         (snd (peekone (snd (peekone (adapter_init (example_cursor [''R1''] 1))))))))
       \<noteq> min 5 (remaining
         (snd (peekone (snd (peekone (adapter_init (example_cursor [''R1''] 1)))))))"
  by (simp add: fetchmany_deliverable deliverable_def logical_def peekone_def raw_fetchone_def
                remaining_def adapter_init_def example_cursor_def)

text \<open>
  Claim C4, amended. In a state where no row waits behind an end-of-stream marker,
  \<open>fetchmany\<close> with size \<open>k\<close> returns the next \<open>min (nat k) (remaining a)\<close> undelivered rows,
  in order (\<open>nat k\<close> is \<open>k\<close> for a positive size and 0 otherwise). For a positive size the
  result is empty if and only if no row remains; for a size of zero or less it is always
  empty. Without a size the raw cursor's \<open>arraysize\<close> is used. The state it leaves
  satisfies the same condition again. \<open>fetchmany\<close> has no raising branch: it is a total
  function to a list.
\<close>

theorem fetchmany_count:
  assumes "marker_last a"
  shows "fst (fetchmany (Some k) a) = take (nat k) (deliverable a)
   \<and> length (deliverable a) = remaining a
   \<and> length (fst (fetchmany (Some k) a)) = min (nat k) (remaining a)
   \<and> (0 < k \<longrightarrow> (fst (fetchmany (Some k) a) = [] \<longleftrightarrow> remaining a = 0))
   \<and> (k \<le> 0 \<longrightarrow> fst (fetchmany (Some k) a) = [])
   \<and> fetchmany None a = fetchmany (Some (arraysize (cursor a))) a
   \<and> marker_last (snd (fetchmany (Some k) a))"
proof -
  have t: "fst (fetchmany (Some k) a) = take (nat k) (deliverable a)"
    by (simp add: fetchmany_deliverable)
  from assms have r: "length (deliverable a) = remaining a"
    by (simp add: remaining_deliverable)
  from t r have l: "length (fst (fetchmany (Some k) a)) = min (nat k) (remaining a)"
    by (simp add: min.commute)
  have e: "(fst (fetchmany (Some k) a) = [] \<longleftrightarrow> remaining a = 0)" if "0 < k"
  proof -
    from r have "deliverable a = [] \<longleftrightarrow> remaining a = 0"
      by (metis length_0_conv)
    with that show ?thesis by (simp add: t take_eq_Nil)
  qed
  have z: "fst (fetchmany (Some k) a) = []" if "k \<le> 0"
    using that by (simp add: t)
  have d: "fetchmany None a = fetchmany (Some (arraysize (cursor a))) a"
    by (simp add: fetchmany_def)
  from assms have m: "marker_last (snd (fetchmany (Some k) a))"
    by (simp add: fetchmany_def marker_last_fetchmany_loop)
  from t r l e z d m show ?thesis by blast
qed

theorem fetchmany_count_witness:
  "marker_last (snd (description (adapter_init (example_cursor [''R1'', ''R2'', ''R3''] 3))))
   \<and> fst (fetchmany (Some 2)
        (snd (description (adapter_init (example_cursor [''R1'', ''R2'', ''R3''] 3)))))
       = take 2 [''R1'', ''R2'', ''R3'']
   \<and> remaining (snd (description (adapter_init (example_cursor [''R1'', ''R2'', ''R3''] 3))))
       = 3"
proof -
  have r: "rows (adapter_init (example_cursor [''R1'', ''R2'', ''R3''] 3)) = []"
    and i: "\<not> initialized (adapter_init (example_cursor [''R1'', ''R2'', ''R3''] 3))"
    by (simp_all add: adapter_init_def)
  from i have d: "snd (description (adapter_init (example_cursor [''R1'', ''R2'', ''R3''] 3)))
      = snd (peekone (adapter_init (example_cursor [''R1'', ''R2'', ''R3''] 3)))"
    by (simp add: description_uninitialized)
  from r have m:
    "marker_last (snd (description (adapter_init (example_cursor [''R1'', ''R2'', ''R3''] 3))))"
    unfolding d by (rule marker_last_single_peek)
  have v: "deliverable
      (snd (description (adapter_init (example_cursor [''R1'', ''R2'', ''R3''] 3))))
      = [''R1'', ''R2'', ''R3'']"
    unfolding d using r
    by (simp add: peekone_deliverable deliverable_init example_cursor_def)
  from fetchmany_count [OF m, of 2] v m show ?thesis by simp
qed

text \<open>
  Claim C5. \<open>execute\<close> and \<open>executemany\<close> return exactly what the raw cursor's call
  returns, and leave the adapter with the raw cursor's new state, an empty buffer
  (whatever was buffered is dropped) and the flag \<open>initialized\<close> cleared; the next
  access to \<open>description\<close> is therefore a fresh peek: one fetch on the raw cursor, whose
  result is the only entry of the buffer.
\<close>

theorem execute_resets_adapter:
  "execute ex a =
     (fst (ex (cursor a)), \<lparr>cursor = snd (ex (cursor a)), rows = [], initialized = False\<rparr>)
   \<and> executemany ex a =
     (fst (ex (cursor a)), \<lparr>cursor = snd (ex (cursor a)), rows = [], initialized = False\<rparr>)
   \<and> snd (description (snd (execute ex a))) = snd (peekone (snd (execute ex a)))
   \<and> fetch_count (cursor (snd (description (snd (execute ex a)))))
       = Suc (fetch_count (snd (ex (cursor a))))
   \<and> rows (snd (description (snd (execute ex a)))) = [fst (raw_fetchone (snd (ex (cursor a))))]"
  by (simp add: execute_eq executemany_eq description_uninitialized peekone_eq
                raw_fetchone_count)




text \<open>
  Claim C9. When the raw cursor is exhausted, \<open>peekone\<close> gets the end-of-stream marker
  \<open>None\<close> and puts the marker itself at the front of the buffer; the next \<open>fetchone\<close>
  finds the buffer not empty, pops the marker and returns it, raising nothing. With the
  marker in front, \<open>fetchmany\<close> returns the empty list for every size, \<open>__next__\<close> raises
  \<open>StopIteration\<close> and iteration yields nothing. On an empty result set, accessing
  \<open>description\<close> on a new adapter and then calling \<open>fetchone\<close> yields the marker.
\<close>

theorem peek_at_exhaustion:
  "(pending (cursor (a :: 'r adapter)) = [] \<longrightarrow>
      fst (peekone a) = None
      \<and> rows (snd (peekone a)) = None # rows a
      \<and> fetchone (snd (peekone a)) = (None, (snd (peekone a))\<lparr>rows := rows a\<rparr>)
      \<and> fst (fetchmany sz (snd (peekone a))) = []
      \<and> fst (adapter_next (snd (peekone a))) = Inl StopIteration
      \<and> fst (iterate (snd (peekone a))) = [])
   \<and> (pending (c :: 'r raw_cursor) = [] \<longrightarrow>
        rows (snd (description (adapter_init c))) = [None]
        \<and> fst (fetchone (snd (description (adapter_init c)))) = None)"
proof -
  have general: "fst (peekone b) = None
      \<and> rows (snd (peekone b)) = None # rows b
      \<and> fetchone (snd (peekone b)) = (None, (snd (peekone b))\<lparr>rows := rows b\<rparr>)
      \<and> fst (fetchmany sz (snd (peekone b))) = []
      \<and> fst (adapter_next (snd (peekone b))) = Inl StopIteration
      \<and> fst (iterate (snd (peekone b))) = []"
    if "pending (cursor b) = []" for b :: "'r adapter"
  proof -
    from that have p: "fst (peekone b) = None" and r: "rows (snd (peekone b)) = None # rows b"
      by (simp_all add: peekone_eq raw_fetchone_exhausted)
    from p have f: "fetchone (snd (peekone b)) = (None, (snd (peekone b))\<lparr>rows := rows b\<rparr>)"
      by (simp add: fetchone_after_peekone)
    from r have d: "deliverable (snd (peekone b)) = []"
      by (simp add: deliverable_def logical_def)
    from p r f d show ?thesis
      by (simp add: fetchmany_deliverable iterate_deliverable adapter_next_def)
  qed
  have fresh: "\<not> initialized (adapter_init c)" "rows (adapter_init c) = []"
    "cursor (adapter_init c) = c"
    by (simp_all add: adapter_init_def)
  have "rows (snd (description (adapter_init c))) = [None]
        \<and> fst (fetchone (snd (description (adapter_init c)))) = None"
    if "pending c = []"
    using general [of "adapter_init c"] that fresh
    by (simp add: description_uninitialized)
  with general [of a] show ?thesis by blast
qed

theorem peek_at_exhaustion_witness:
  "pending (cursor (adapter_init (example_cursor [] 0))) = []
   \<and> pending (example_cursor [] 0) = []
   \<and> fst (peekone (adapter_init (example_cursor [] 0))) = None
   \<and> rows (snd (peekone (adapter_init (example_cursor [] 0)))) = [None]
   \<and> fst (fetchmany (Some 3) (snd (peekone (adapter_init (example_cursor [] 0))))) = []
   \<and> fst (adapter_next (snd (peekone (adapter_init (example_cursor [] 0))))) = Inl StopIteration
   \<and> fst (iterate (snd (peekone (adapter_init (example_cursor [] 0))))) = []
   \<and> fst (fetchone (snd (description (adapter_init (example_cursor [] 0))))) = None"
  using peek_at_exhaustion
    [of "adapter_init (example_cursor [] 0)" "Some 3" "example_cursor [] 0"]
  by (simp add: adapter_init_def example_cursor_def)

text \<open>
  Claim C10. \<open>fetchone\<close>, \<open>fetchmany\<close>, \<open>__next__\<close> and iteration leave the flag
  \<open>initialized\<close> as it is; \<open>peekone\<close> sets it; \<open>execute\<close> and \<open>executemany\<close> clear it.
  So after \<open>n\<close> calls of \<open>fetchone\<close> on a new adapter, which return the first \<open>n\<close> entries of
  the stream, the flag is still clear and an access to \<open>description\<close> is one peek, one
  more fetch on the raw cursor; the row it pulled is what the next \<open>fetchone\<close> returns,
  and draining delivers the rest of the result set, \<open>drop n (pending c)\<close>, in order.
\<close>

theorem flag_changes_only_in_peek_and_execute:
  "initialized (snd (fetchone a)) = initialized a
   \<and> initialized (snd (fetchmany sz a)) = initialized a
   \<and> initialized (snd (adapter_next a)) = initialized a
   \<and> initialized (snd (iterate a)) = initialized a
   \<and> initialized (snd (peekone a))
   \<and> \<not> initialized (snd (execute ex a))
   \<and> \<not> initialized (snd (executemany ex a))
   \<and> (fetchone_times n (adapter_init c) = (xs, a1) \<longrightarrow>
        xs = take n (map Some (pending c)) @ replicate (n - length (pending c)) None
        \<and> \<not> initialized a1
        \<and> snd (description a1) = snd (peekone a1)
        \<and> fetch_count (cursor (snd (description a1))) = Suc (fetch_count (cursor a1))
        \<and> fetchone (snd (description a1)) = (fst (peekone a1), (snd (peekone a1))\<lparr>rows := []\<rparr>)
        \<and> fst (drain (snd (description a1))) = drop n (pending c))"
proof -
  have frame: "initialized (snd (fetchone a)) = initialized a
     \<and> initialized (snd (fetchmany sz a)) = initialized a
     \<and> initialized (snd (adapter_next a)) = initialized a
     \<and> initialized (snd (iterate a)) = initialized a
     \<and> initialized (snd (peekone a))
     \<and> \<not> initialized (snd (execute ex a))
     \<and> \<not> initialized (snd (executemany ex a))"
    by (simp add: fetchone_initialized fetchmany_initialized iterate_initialized
                  adapter_next_state peekone_eq execute_eq executemany_eq)
  have late: "xs = take n (map Some (pending c)) @ replicate (n - length (pending c)) None
        \<and> \<not> initialized a1
        \<and> snd (description a1) = snd (peekone a1)
        \<and> fetch_count (cursor (snd (description a1))) = Suc (fetch_count (cursor a1))
        \<and> fetchone (snd (description a1)) = (fst (peekone a1), (snd (peekone a1))\<lparr>rows := []\<rparr>)
        \<and> fst (drain (snd (description a1))) = drop n (pending c)"
    if t: "fetchone_times n (adapter_init c) = (xs, a1)"
  proof -
    have "rows (adapter_init c) = []" by (simp add: adapter_init_def)
    from fetchone_times_unbuffered [OF this t]
    have r: "rows a1 = []" and i: "\<not> initialized a1"
      and p: "pending (cursor a1) = drop n (pending c)"
      and x: "xs = take n (map Some (pending c)) @ replicate (n - length (pending c)) None"
      by (simp_all add: adapter_init_def)
    from i have d: "snd (description a1) = snd (peekone a1)"
      by (simp add: description_uninitialized)
    have c: "fetch_count (cursor (snd (peekone a1))) = Suc (fetch_count (cursor a1))"
      by (simp add: peekone_eq raw_fetchone_count)
    have f: "fetchone (snd (peekone a1)) = (fst (peekone a1), (snd (peekone a1))\<lparr>rows := []\<rparr>)"
      using r by (simp add: fetchone_after_peekone)
    have "fst (drain (snd (peekone a1))) = drop n (pending c)"
      using r p by (simp add: drain_deliverable peekone_deliverable deliverable_empty_buffer)
    with x i d c f show ?thesis by simp
  qed
  from frame late show ?thesis by blast
qed

theorem flag_changes_only_in_peek_and_execute_witness:
  "fetchone_times 1 (adapter_init (example_cursor [''R1'', ''R2'', ''R3''] 3)) =
     ([Some ''R1''],
      \<lparr>cursor = \<lparr>pending = [''R2'', ''R3''], columns = [], fetch_attempted = True,
                 fetch_count = 1, raw_rowcount = 3, arraysize = 2\<rparr>,
       rows = [], initialized = False\<rparr>)
   \<and> fst (drain (snd (description
       \<lparr>cursor = \<lparr>pending = [''R2'', ''R3''], columns = [], fetch_attempted = True,
                  fetch_count = 1, raw_rowcount = 3, arraysize = 2\<rparr>,
        rows = [], initialized = False\<rparr>))) = drop 1 [''R1'', ''R2'', ''R3'']"
proof -
  have h: "fetchone_times 1 (adapter_init (example_cursor [''R1'', ''R2'', ''R3''] 3)) =
     ([Some ''R1''],
      \<lparr>cursor = \<lparr>pending = [''R2'', ''R3''], columns = [], fetch_attempted = True,
                 fetch_count = 1, raw_rowcount = 3, arraysize = 2\<rparr>,
       rows = [], initialized = False\<rparr>)"
    by (simp add: adapter_init_def example_cursor_def fetchone_def raw_fetchone_def)
  have p: "pending (example_cursor [''R1'', ''R2'', ''R3''] 3) = [''R1'', ''R2'', ''R3'']"
    by (simp add: example_cursor_def)
  from flag_changes_only_in_peek_and_execute
    [of "adapter_init (example_cursor [] 0)" None "\<lambda>c. ((), c)" 1
        "example_cursor [''R1'', ''R2'', ''R3''] 3" "[Some ''R1'']"
        "\<lparr>cursor = \<lparr>pending = [''R2'', ''R3''], columns = [], fetch_attempted = True,
                 fetch_count = 1, raw_rowcount = 3, arraysize = 2\<rparr>,
         rows = [], initialized = False\<rparr>"] h
  have "fst (drain (snd (description
       \<lparr>cursor = \<lparr>pending = [''R2'', ''R3''], columns = [], fetch_attempted = True,
                  fetch_count = 1, raw_rowcount = 3, arraysize = 2\<rparr>,
        rows = [], initialized = False\<rparr>)))
      = drop 1 (pending (example_cursor [''R1'', ''R2'', ''R3''] 3))"
    by blast
  with h p show ?thesis by (simp only: simp_thms)
qed

end
